theory Spec2Isabelle
  imports Complex_Main
begin

section \<open>JavaScript values\<close>

text \<open>
  The values that travel between the server and the React client are parsed JSON.  A property
  that an object does not have reads as \<open>JUndefined\<close>.  Strings are lists of 8-bit
  characters.  The client does three things with a number: it passes it on, it tests its
  truthiness, and it converts it to a string.  So a number \<open>JNum z s\<close> is given by whether it
  is zero (\<open>z\<close>) and by the text \<open>s\<close> that \<^verbatim>\<open>String\<close> makes of it.  An object is the list of its
  own properties in the order the parser met them; of a name met twice the later one counts.
\<close>

datatype jsval =
    JUndefined
  | JNull
  | JBool bool
  | JNum bool string
  | JStr string
  | JArr "jsval list"
  | JObj "(string \<times> jsval) list"

text \<open>Truthiness, as tested by \<^verbatim>\<open>if (v)\<close>, \<^verbatim>\<open>!v\<close> and \<^verbatim>\<open>a || b\<close>.\<close>

fun truthy :: "jsval \<Rightarrow> bool" where
  "truthy JUndefined = False"
| "truthy JNull = False"
| "truthy (JBool b) = b"
| "truthy (JNum z s) = (\<not> z)"
| "truthy (JStr s) = (s \<noteq> [])"
| "truthy (JArr xs) = True"
| "truthy (JObj kvs) = True"

text \<open>\<^verbatim>\<open>a || b\<close>\<close>

definition js_or :: "jsval \<Rightarrow> jsval \<Rightarrow> jsval" where
  "js_or a b = (if truthy a then a else b)"

text \<open>
  Thrown values are error objects, of which the client reads the \<^verbatim>\<open>message\<close>; the \<^verbatim>\<open>name\<close>
  tells the class.  \<open>Error msg\<close> is \<^verbatim>\<open>new Error(msg)\<close>, and \<open>TypeError msg\<close> what the engine
  throws when a property of \<^verbatim>\<open>null\<close> is read or a conversion fails.
\<close>

datatype js_error = Thrown (error_name: string) (message: string)

abbreviation Error :: "string \<Rightarrow> js_error" where
  "Error msg \<equiv> Thrown ''Error'' msg"

abbreviation TypeError :: "string \<Rightarrow> js_error" where
  "TypeError msg \<equiv> Thrown ''TypeError'' msg"

text \<open>
  Reading a property \<^verbatim>\<open>v.key\<close>.  Of \<^verbatim>\<open>null\<close> and \<^verbatim>\<open>undefined\<close> no property can be read: the
  engine throws a \<^verbatim>\<open>TypeError\<close>, worded here as V8 (Chrome, Node) words it.  Of any other
  value \<open>get_prop\<close> gives the property, for a key that no prototype defines, as is the case of
  the five keys the client reads: \<^verbatim>\<open>detail\<close>, \<^verbatim>\<open>response\<close>, \<^verbatim>\<open>tool_used\<close>, \<^verbatim>\<open>tool_output\<close> and
  \<^verbatim>\<open>thinking\<close>.
\<close>

definition nullish :: "jsval \<Rightarrow> bool" where
  "nullish v \<longleftrightarrow> v = JNull \<or> v = JUndefined"

definition cannot_read :: "jsval \<Rightarrow> string \<Rightarrow> js_error" where
  "cannot_read v key =
     TypeError (''Cannot read properties of '' @ (if v = JNull then ''null'' else ''undefined'')
                @ '' (reading '' @ [CHR 0x27] @ key @ [CHR 0x27] @ '')'')"

definition get_prop :: "jsval \<Rightarrow> string \<Rightarrow> jsval" where
  "get_prop v key =
     (case v of
        JObj kvs \<Rightarrow> (case map_of (rev kvs) key of None \<Rightarrow> JUndefined | Some x \<Rightarrow> x)
      | _ \<Rightarrow> JUndefined)"

text \<open>
  The string conversion \<^verbatim>\<open>String(v)\<close>, which \<^verbatim>\<open>new Error(v)\<close> applies to an argument that is
  not \<^verbatim>\<open>undefined\<close>, as the one \<^verbatim>\<open>sendChatMessage\<close> gives it never is.  An array is joined
  with commas, \<^verbatim>\<open>null\<close> and \<^verbatim>\<open>undefined\<close> elements giving the empty string.  A parsed object
  is \<^verbatim>\<open>[object Object]\<close>, unless it has a property \<^verbatim>\<open>toString\<close> of its own: that hides the
  inherited method and is no function, and the conversion throws.
\<close>

fun js_to_string :: "jsval \<Rightarrow> js_error + string"
  and join_elements :: "jsval list \<Rightarrow> js_error + string" where
  "js_to_string JUndefined = Inr ''undefined''"
| "js_to_string JNull = Inr ''null''"
| "js_to_string (JBool b) = Inr (if b then ''true'' else ''false'')"
| "js_to_string (JNum z s) = Inr s"
| "js_to_string (JStr s) = Inr s"
| "js_to_string (JArr xs) = join_elements xs"
| "js_to_string (JObj kvs) =
     (if ''toString'' \<in> set (map fst kvs)
      then Inl (TypeError ''Cannot convert object to primitive value'')
      else Inr ''[object Object]'')"
| "join_elements [] = Inr []"
| "join_elements (x # xs) =
     (case (if x = JNull \<or> x = JUndefined then Inr [] else js_to_string x) of
        Inl e \<Rightarrow> Inl e
      | Inr s \<Rightarrow>
          if xs = [] then Inr s
          else (case join_elements xs of Inl e \<Rightarrow> Inl e | Inr r \<Rightarrow> Inr (s @ '','' @ r)))"

section \<open>\<^verbatim>\<open>String.prototype.trim\<close>\<close>

text \<open>
  \<^verbatim>\<open>trim\<close> removes white space and line terminators from both ends.  Of the characters it
  removes, these are the ones below U+0100: tab, line feed, vertical tab, form feed,
  carriage return, space and no-break space.
\<close>

definition is_whitespace :: "char \<Rightarrow> bool" where
  "is_whitespace c \<longleftrightarrow>
     c \<in> set [CHR 0x09, CHR 0x0A, CHR 0x0B, CHR 0x0C, CHR 0x0D, CHR 0x20, CHR 0xA0]"

definition trim :: "string \<Rightarrow> string" where
  "trim s = rev (dropWhile is_whitespace (rev (dropWhile is_whitespace s)))"

section \<open>api.js: the HTTP client\<close>

text \<open>
  What \<^verbatim>\<open>apiClient.post\<close> settles to: it resolves with a response, of which the client reads
  the \<^verbatim>\<open>data\<close>, or rejects with an error object.  Of that the client reads
  \<^verbatim>\<open>error.response\<close> (here the \<^verbatim>\<open>data\<close> of the response, when there is one) and whether
  \<^verbatim>\<open>error.request\<close> is set; both are set when the server answered with an error status, so the
  order of the tests in \<^verbatim>\<open>sendChatMessage\<close> matters.  The \<^verbatim>\<open>data\<close> is whatever the body
  parsed to: an object, but also \<^verbatim>\<open>null\<close>, a string or a number.
\<close>

record axios_error =
  response :: "jsval option"
  request :: bool

datatype axios_result = Resolved jsval | Rejected axios_error

text \<open>The transport: the settlement of a POST to a path with an optional body.\<close>

type_synonym transport = "string \<Rightarrow> jsval option \<Rightarrow> axios_result"

text \<open>
  What the \<^verbatim>\<open>catch\<close> clause of \<^verbatim>\<open>sendChatMessage\<close> throws.  With a response it evaluates
  \<^verbatim>\<open>error.response.data.detail || 'Server error occurred'\<close>, which itself throws when the
  \<^verbatim>\<open>data\<close> is \<^verbatim>\<open>null\<close> or \<^verbatim>\<open>undefined\<close>, and makes an \<^verbatim>\<open>Error\<close> of it, which throws when the
  detail has no string conversion.
\<close>

definition chat_failure :: "axios_error \<Rightarrow> js_error" where
  "chat_failure err =
     (case response err of
        Some data \<Rightarrow>
          if nullish data then cannot_read data ''detail''
          else (case js_to_string
                       (js_or (get_prop data ''detail'') (JStr ''Server error occurred'')) of
                  Inl thrown \<Rightarrow> thrown
                | Inr msg \<Rightarrow> Error msg)
      | None \<Rightarrow>
          if request err
          then Error ''Unable to connect to the server. Is the backend running?''
          else Error ''Failed to send message'')"

definition sendChatMessage :: "transport \<Rightarrow> string \<Rightarrow> js_error + jsval" where
  "sendChatMessage post msg =
     (case post ''/chat'' (Some (JObj [(''message'', JStr msg)])) of
        Resolved data \<Rightarrow> Inr data
      | Rejected err \<Rightarrow> Inl (chat_failure err))"

definition clearChatHistory :: "transport \<Rightarrow> js_error + jsval" where
  "clearChatHistory post =
     (case post ''/clear-history'' None of
        Resolved data \<Rightarrow> Inr data
      | Rejected err \<Rightarrow> Inl (Error ''Failed to clear chat history''))"

section \<open>App.jsx and ChatWindow.jsx: the client state\<close>

datatype role = User | Agent

record chat_message =
  msg_id :: nat
  role :: role
  content :: jsval
  toolUsed :: jsval
  toolOutput :: jsval
  thinking :: jsval
  timestamp :: nat

text \<open>
  A tool log entry \<^verbatim>\<open>{tool, input, output, success, timestamp}\<close>: \<^verbatim>\<open>handleSend\<close> reports
  the first four fields, \<^verbatim>\<open>handleToolLog\<close> adds the timestamp.
\<close>

record tool_event =
  tool :: jsval
  log_input :: jsval
  log_output :: jsval
  success :: bool

record tool_log = tool_event +
  log_timestamp :: nat

text \<open>
  \<open>messages\<close> and \<open>toolLogs\<close> are the state of \<^verbatim>\<open>App\<close>; \<open>inputValue\<close>, \<open>isLoading\<close> and
  \<open>error\<close> are the state of \<^verbatim>\<open>ChatWindow\<close>.
\<close>

record app_state =
  messages :: "chat_message list"
  toolLogs :: "tool_log list"
  inputValue :: string
  isLoading :: bool
  error :: "string option"

text \<open>The clock: \<open>now k\<close> is the \<open>k\<close>-th reading taken during one call of a handler.\<close>

type_synonym clock = "nat \<Rightarrow> nat"

text \<open>
  \<^verbatim>\<open>handleToolLog\<close> appends the entry it is given, stamped with the time \<open>t\<close> it reads.
\<close>

definition handleToolLog :: "nat \<Rightarrow> tool_event \<Rightarrow> app_state \<Rightarrow> app_state" where
  "handleToolLog t entry st =
     st\<lparr>toolLogs := toolLogs st @
          [\<lparr>tool = tool entry, log_input = log_input entry, log_output = log_output entry,
            success = success entry, log_timestamp = t\<rparr>]\<rparr>"

definition handleClearChat :: "transport \<Rightarrow> app_state \<Rightarrow> app_state" where
  "handleClearChat post st =
     (case clearChatHistory post of
        Inr ack \<Rightarrow> st\<lparr>messages := [], toolLogs := []\<rparr>
      | Inl err \<Rightarrow> st)"

definition handleClearLogs :: "app_state \<Rightarrow> app_state" where
  "handleClearLogs st = st\<lparr>toolLogs := []\<rparr>"

text \<open>
  The text \<^verbatim>\<open>handleSend\<close> works on: its argument, by default the input field, trimmed.
\<close>

definition trimmedMessage :: "app_state \<Rightarrow> string option \<Rightarrow> string" where
  "trimmedMessage st messageText =
     trim (case messageText of None \<Rightarrow> inputValue st | Some t \<Rightarrow> t)"

text \<open>
  The three messages \<^verbatim>\<open>handleSend\<close> builds; each reads the clock twice, for its \<^verbatim>\<open>id\<close> and
  for its \<^verbatim>\<open>timestamp\<close>.
\<close>

definition userMessage :: "clock \<Rightarrow> string \<Rightarrow> chat_message" where
  "userMessage now txt =
     \<lparr>msg_id = now 0, role = User, content = JStr txt,
      toolUsed = JUndefined, toolOutput = JUndefined, thinking = JUndefined,
      timestamp = now 1\<rparr>"

definition agentMessage :: "clock \<Rightarrow> jsval \<Rightarrow> chat_message" where
  "agentMessage now resp =
     \<lparr>msg_id = now 2 + 1, role = Agent, content = get_prop resp ''response'',
      toolUsed = get_prop resp ''tool_used'', toolOutput = get_prop resp ''tool_output'',
      thinking = get_prop resp ''thinking'', timestamp = now 3\<rparr>"

definition errorMessage :: "clock \<Rightarrow> js_error \<Rightarrow> chat_message" where
  "errorMessage now err =
     \<lparr>msg_id = now 2 + 1, role = Agent,
      content = JStr (''Sorry, I encountered an error: '' @ message err),
      toolUsed = JUndefined, toolOutput = JUndefined, thinking = JUndefined,
      timestamp = now 3\<rparr>"

text \<open>
  \<^verbatim>\<open>handleSend\<close> up to the \<^verbatim>\<open>await\<close>: the guard, then the user's message.  \<open>None\<close> is the
  early \<^verbatim>\<open>return\<close>; otherwise the state in which the request is issued and the text sent.
\<close>

definition handleSend_begin ::
  "clock \<Rightarrow> app_state \<Rightarrow> string option \<Rightarrow> (app_state \<times> string) option" where
  "handleSend_begin now st messageText =
     (if trimmedMessage st messageText = [] \<or> isLoading st then None
      else Some (st\<lparr>error := None, inputValue := [],
                    messages := messages st @ [userMessage now (trimmedMessage st messageText)],
                    isLoading := True\<rparr>,
                 trimmedMessage st messageText))"

text \<open>The \<^verbatim>\<open>catch\<close> clause of \<^verbatim>\<open>handleSend\<close>, with the \<^verbatim>\<open>finally\<close> clause after it.\<close>

definition handleSend_catch :: "clock \<Rightarrow> app_state \<Rightarrow> js_error \<Rightarrow> app_state" where
  "handleSend_catch now st err =
     st\<lparr>error := Some (message err),
        messages := messages st @ [errorMessage now err], isLoading := False\<rparr>"

text \<open>
  \<^verbatim>\<open>handleSend\<close> after the \<^verbatim>\<open>await\<close>.  When \<^verbatim>\<open>sendChatMessage\<close> threw, the \<^verbatim>\<open>catch\<close> clause
  runs.  When it returned a body that is \<^verbatim>\<open>null\<close> or \<^verbatim>\<open>undefined\<close>, building the agent's
  message throws at \<^verbatim>\<open>response.response\<close>, after the clock was read once for the \<^verbatim>\<open>id\<close>,
  and the \<^verbatim>\<open>catch\<close> clause runs on that \<^verbatim>\<open>TypeError\<close>.  Otherwise the \<^verbatim>\<open>try\<close> body runs to
  its end, and the \<^verbatim>\<open>finally\<close> clause after it.
\<close>

definition handleSend_finish ::
  "clock \<Rightarrow> app_state \<Rightarrow> js_error + jsval \<Rightarrow> app_state" where
  "handleSend_finish now st res =
     (case res of
        Inr resp \<Rightarrow>
          if nullish resp
          then handleSend_catch (\<lambda>k. now (Suc k)) st (cannot_read resp ''response'')
          else
            (let st1 = st\<lparr>messages := messages st @ [agentMessage now resp]\<rparr>;
                 st2 = (if truthy (get_prop resp ''tool_used'')
                        then handleToolLog (now 4)
                               \<lparr>tool = get_prop resp ''tool_used'',
                                log_input = get_prop resp ''thinking'',
                                log_output = get_prop resp ''tool_output'',
                                success = True\<rparr> st1
                        else st1)
             in st2\<lparr>isLoading := False\<rparr>)
      | Inl err \<Rightarrow> handleSend_catch now st err)"

text \<open>
  The whole handler: the new state and the texts it posted to \<^verbatim>\<open>/chat\<close>, each as the body
  \<^verbatim>\<open>{message}\<close>.  It never throws: the \<^verbatim>\<open>catch\<close> clause takes every failure.
\<close>

definition handleSend ::
  "transport \<Rightarrow> clock \<Rightarrow> app_state \<Rightarrow> string option \<Rightarrow> app_state \<times> string list" where
  "handleSend post now st messageText =
     (case handleSend_begin now st messageText of
        None \<Rightarrow> (st, [])
      | Some (st1, txt) \<Rightarrow> (handleSend_finish now st1 (sendChatMessage post txt), [txt]))"

text \<open>The state both components start from (\<^verbatim>\<open>useState\<close>).\<close>

definition initial_state :: app_state where
  "initial_state =
     \<lparr>messages = [], toolLogs = [], inputValue = [], isLoading = False, error = None\<rparr>"

section \<open>The tools described by the specification\<close>

text \<open>
  The Python backend (\<^verbatim>\<open>tools.py\<close>, \<^verbatim>\<open>agent_service.py\<close>, \<^verbatim>\<open>schemas.py\<close>) is not among
  the sources; the client above only calls it.  The tools that follow are written from the
  specification's description of them.
\<close>

subsection \<open>Tools\<close>

datatype tool_failure = UnsupportedCurrency | CityNotFound | SearchUnavailable

datatype tool_error = ToolExecutionError tool_failure

text \<open>
  Modelled from the spec: the executor of \<^verbatim>\<open>calculate_sum\<close> (in \<^verbatim>\<open>tools.py\<close>, missing).
  ``\<^verbatim>\<open>calculate_sum(numbers: list<number>)\<close> \<open>\<rightarrow>\<close> sum; empty list returns 0 (defined, not an
  error)''.  Numbers are exact rationals.
\<close>

definition calculate_sum :: "rat list \<Rightarrow> tool_error + rat" where
  "calculate_sum numbers = Inr (foldl (+) 0 numbers)"

text \<open>
  Modelled from the spec: the currencies of the static rate table of \<^verbatim>\<open>convert_currency\<close>
  (in \<^verbatim>\<open>tools.py\<close>, missing): ``restricted to {USD, EUR, INR}''.
\<close>

definition supported_currencies :: "string list" where
  "supported_currencies = [''USD'', ''EUR'', ''INR'']"

text \<open>
  Modelled from the spec: the executor of \<^verbatim>\<open>convert_currency\<close> (in \<^verbatim>\<open>tools.py\<close>, missing).
  ``\<^verbatim>\<open>convert_currency(amount, from, to)\<close> \<open>\<rightarrow>\<close> scalar using a fixed static rate table
  restricted to {USD, EUR, INR}; any other currency fails
  \<^verbatim>\<open>ToolExecutionError(UnsupportedCurrency)\<close>''.  The specification does not give the rates:
  the table \<open>rate\<close> is a parameter.
\<close>

definition convert_currency ::
  "(string \<Rightarrow> string \<Rightarrow> rat) \<Rightarrow> rat \<Rightarrow> string \<Rightarrow> string \<Rightarrow> tool_error + rat" where
  "convert_currency rate amount from_currency to_currency =
     (if from_currency \<in> set supported_currencies \<and> to_currency \<in> set supported_currencies
      then Inr (amount * rate from_currency to_currency)
      else Inl (ToolExecutionError UnsupportedCurrency))"

text \<open>
  Modelled from the spec: the executor of \<^verbatim>\<open>get_weather\<close> (in \<^verbatim>\<open>tools.py\<close>, missing).
  ``\<^verbatim>\<open>get_weather(city)\<close> \<open>\<rightarrow>\<close> structured reading from a small static fixture set; unknown
  city fails \<^verbatim>\<open>ToolExecutionError(CityNotFound)\<close>''.  The specification does not list the
  fixture: the table \<open>fixture\<close> of cities and readings is a parameter.
\<close>

definition get_weather :: "(string \<times> 'r) list \<Rightarrow> string \<Rightarrow> tool_error + 'r" where
  "get_weather fixture city =
     (case map_of fixture city of
        Some reading \<Rightarrow> Inr reading
      | None \<Rightarrow> Inl (ToolExecutionError CityNotFound))"

section \<open>The reply shape of the specification\<close>

text \<open>
  The shape that the specification gives the value of a successful \<^verbatim>\<open>submit_message\<close>,
  \<^verbatim>\<open>{response, tool_used, tool_output, thinking}\<close>, as a predicate on a response body:
  an object with exactly these four properties.  The client has no such test; the
  predicate is here to state what the client does not check.
\<close>

definition claimed_reply_shape :: "jsval \<Rightarrow> bool" where
  "claimed_reply_shape v =
     (case v of
        JObj kvs \<Rightarrow>
          set (map fst kvs) = {''response'', ''tool_used'', ''tool_output'', ''thinking''}
      | _ \<Rightarrow> False)"

section \<open>Sample inputs\<close>

definition fixed_clock :: clock where
  "fixed_clock k = 1000 + k"

text \<open>No response arrives: the backend is not running, or the request timed out.\<close>

definition backend_down :: transport where
  "backend_down path body = Rejected \<lparr>response = None, request = True\<rparr>"

text \<open>The request could not be set up.\<close>

definition setup_failure :: transport where
  "setup_failure path body = Rejected \<lparr>response = None, request = False\<rparr>"

text \<open>The server answers with an error status and a \<^verbatim>\<open>detail\<close>.\<close>

definition server_error :: transport where
  "server_error path body =
     Rejected \<lparr>response = Some (JObj [(''detail'', JStr ''Agent execution failed'')]),
               request = True\<rparr>"

text \<open>The server answers with an error status and no \<^verbatim>\<open>detail\<close>.\<close>

definition server_error_plain :: transport where
  "server_error_plain path body = Rejected \<lparr>response = Some (JObj []), request = True\<rparr>"

text \<open>The server answers with an error status and the body \<^verbatim>\<open>null\<close>.\<close>

definition server_error_null :: transport where
  "server_error_null path body = Rejected \<lparr>response = Some JNull, request = True\<rparr>"

text \<open>The server answers every request; a chat gets a direct answer.\<close>

definition direct_reply :: transport where
  "direct_reply path body =
     Resolved (JObj [(''response'', JStr ''Hello!''), (''tool_used'', JNull),
                     (''tool_output'', JNull), (''thinking'', JNull)])"

text \<open>The server answers every request with a body that is a string.\<close>

definition text_reply :: transport where
  "text_reply path body = Resolved (JStr ''OK'')"

text \<open>The server reports a turn whose tool could not do what was asked.\<close>

definition failed_tool_reply :: transport where
  "failed_tool_reply path body =
     Resolved (JObj [(''response'', JStr ''Sorry, JPY is not a supported currency.''),
                     (''tool_used'', JStr ''convert_currency''),
                     (''tool_output'', JStr ''Error: unsupported currency JPY''),
                     (''thinking'', JStr ''Decided to use convert_currency'')])"

text \<open>A rate table and a weather fixture to run the tools on.\<close>

definition sample_rate :: "string \<Rightarrow> string \<Rightarrow> rat" where
  "sample_rate from_currency to_currency =
     (if from_currency = to_currency then 1
      else if from_currency = ''USD'' \<and> to_currency = ''INR'' then 83 else 2)"

definition sample_fixture :: "(string \<times> (int \<times> string)) list" where
  "sample_fixture = [(''Bangalore'', (28, ''Sunny'')), (''Berlin'', (12, ''Cloudy''))]"

section \<open>Properties of the client\<close>

subsection \<open>Shared facts\<close>

lemma trim_Nil_iff: "trim s = [] \<longleftrightarrow> (\<forall>c\<in>set s. is_whitespace c)"
proof
  assume e: "trim s = []"
  show "\<forall>c\<in>set s. is_whitespace c"
  proof (rule ccontr)
    assume "\<not> (\<forall>c\<in>set s. is_whitespace c)"
    then have ne: "dropWhile is_whitespace s \<noteq> []" by simp
    then have "\<not> is_whitespace (hd (dropWhile is_whitespace s))" by (rule hd_dropWhile)
    moreover have "hd (dropWhile is_whitespace s) \<in> set (rev (dropWhile is_whitespace s))"
      using ne by simp
    ultimately have "dropWhile is_whitespace (rev (dropWhile is_whitespace s)) \<noteq> []"
      by auto
    with e show False by (simp add: trim_def)
  qed
next
  assume "\<forall>c\<in>set s. is_whitespace c"
  then have d: "dropWhile is_whitespace s = []" by simp
  show "trim s = []" unfolding trim_def d by simp
qed

lemma handleSend_guard:
  "trimmedMessage st mt = [] \<or> isLoading st \<Longrightarrow> handleSend post now st mt = (st, [])"
  by (auto simp: handleSend_def handleSend_begin_def)

lemma handleSend_failed:
  assumes "trimmedMessage st mt \<noteq> []" "\<not> isLoading st"
    and "sendChatMessage post (trimmedMessage st mt) = Inl err"
  shows "handleSend post now st mt =
           (st\<lparr>error := Some (message err), inputValue := [],
               messages := messages st @
                 [userMessage now (trimmedMessage st mt), errorMessage now err],
               isLoading := False\<rparr>, [trimmedMessage st mt])"
  using assms
  by (simp add: handleSend_def handleSend_begin_def handleSend_finish_def handleSend_catch_def)

lemma handleSend_replied:
  assumes "trimmedMessage st mt \<noteq> []" "\<not> isLoading st"
    and "sendChatMessage post (trimmedMessage st mt) = Inr resp" and "\<not> nullish resp"
  shows "handleSend post now st mt =
           (st\<lparr>error := None, inputValue := [],
               messages := messages st @
                 [userMessage now (trimmedMessage st mt), agentMessage now resp],
               toolLogs := toolLogs st @
                 (if truthy (get_prop resp ''tool_used'')
                  then [\<lparr>tool = get_prop resp ''tool_used'',
                         log_input = get_prop resp ''thinking'',
                         log_output = get_prop resp ''tool_output'', success = True,
                         log_timestamp = now 4\<rparr>]
                  else []),
               isLoading := False\<rparr>, [trimmedMessage st mt])"
  using assms
  by (simp add: handleSend_def handleSend_begin_def handleSend_finish_def handleToolLog_def
      Let_def)

lemma handleSend_reads_one_answer:
  assumes "post' ''/chat'' (Some (JObj [(''message'', JStr (trimmedMessage st mt))])) =
           post ''/chat'' (Some (JObj [(''message'', JStr (trimmedMessage st mt))]))"
  shows "handleSend post' now st mt = handleSend post now st mt"
proof -
  have "sendChatMessage post' (trimmedMessage st mt) = sendChatMessage post (trimmedMessage st mt)"
    using assms by (simp add: sendChatMessage_def)
  then show ?thesis
    by (simp add: handleSend_def handleSend_begin_def)
qed

lemma sendChatMessage_resolved:
  "post ''/chat'' (Some (JObj [(''message'', JStr msg)])) = Resolved data \<Longrightarrow>
   sendChatMessage post msg = Inr data"
  by (simp add: sendChatMessage_def)

lemma sendChatMessage_rejected:
  "post ''/chat'' (Some (JObj [(''message'', JStr msg)])) = Rejected err \<Longrightarrow>
   sendChatMessage post msg = Inl (chat_failure err)"
  by (simp add: sendChatMessage_def)

lemma js_to_string_throws:
  "js_to_string v = Inl e \<Longrightarrow> error_name e = ''TypeError''"
  "join_elements vs = Inl e \<Longrightarrow> error_name e = ''TypeError''"
  by (induction v and vs arbitrary: e and e rule: js_to_string_join_elements.induct)
     (auto split: if_splits sum.splits)

lemma chat_failure_name:
  "error_name (chat_failure err) = ''Error'' \<or> error_name (chat_failure err) = ''TypeError''"
  by (auto simp: chat_failure_def cannot_read_def dest: js_to_string_throws(1)
      split: option.splits sum.splits)

lemma trimmed_hello: "trimmedMessage initial_state (Some ''hello'') = ''hello''"
  by (simp add: trimmedMessage_def trim_def is_whitespace_def)

lemma trimmed_convert:
  "trimmedMessage initial_state (Some ''Convert 100 USD to JPY'') = ''Convert 100 USD to JPY''"
  by (simp add: trimmedMessage_def trim_def is_whitespace_def)

lemma send_backend_down:
  "sendChatMessage backend_down txt =
     Inl (Error ''Unable to connect to the server. Is the backend running?'')"
  by (simp add: sendChatMessage_def backend_down_def chat_failure_def)

lemma clear_backend_down:
  "clearChatHistory backend_down = Inl (Error ''Failed to clear chat history'')"
  by (simp add: clearChatHistory_def backend_down_def)

lemma clear_direct_reply: "\<exists>ack. clearChatHistory direct_reply = Inr ack"
  by (simp add: clearChatHistory_def direct_reply_def)

lemma clearChatHistory_rejected:
  "post ''/clear-history'' None = Rejected e \<Longrightarrow>
   clearChatHistory post = Inl (Error ''Failed to clear chat history'')"
  by (simp add: clearChatHistory_def)

lemma clearChatHistory_resolved:
  "post ''/clear-history'' None = Resolved ack \<Longrightarrow> clearChatHistory post = Inr ack"
  by (simp add: clearChatHistory_def)

lemma handleClearChat_failed: "clearChatHistory post = Inl err \<Longrightarrow> handleClearChat post st = st"
  by (simp add: handleClearChat_def)

lemma handleClearChat_done:
  "clearChatHistory post = Inr ack \<Longrightarrow>
   handleClearChat post st = st\<lparr>messages := [], toolLogs := []\<rparr>"
  by (simp add: handleClearChat_def)

lemma handleClearChat_keeps_empty:
  "messages st = [] \<Longrightarrow> toolLogs st = [] \<Longrightarrow>
   messages (handleClearChat post st) = [] \<and> toolLogs (handleClearChat post st) = []"
  by (simp add: handleClearChat_def split: sum.splits)

lemma handleClearChat_isLoading: "isLoading (handleClearChat post st) = isLoading st"
  by (simp add: handleClearChat_def split: sum.splits)

lemma handleClearChat_idem:
  "handleClearChat post (handleClearChat post st) = handleClearChat post st"
  by (simp add: handleClearChat_def split: sum.splits)

lemma fold_clear_keeps_empty:
  "messages st = [] \<Longrightarrow> toolLogs st = [] \<Longrightarrow>
   messages (fold handleClearChat posts st) = [] \<and> toolLogs (fold handleClearChat posts st) = []"
  by (induction posts arbitrary: st) (simp_all add: handleClearChat_keeps_empty)

lemma fold_clear_isLoading: "isLoading (fold handleClearChat posts st) = isLoading st"
  by (induction posts arbitrary: st) (simp_all add: handleClearChat_isLoading)

lemma fold_clear_empties:
  "\<exists>p\<in>set posts. \<exists>ack. clearChatHistory p = Inr ack \<Longrightarrow>
   messages (fold handleClearChat posts st) = [] \<and> toolLogs (fold handleClearChat posts st) = []"
proof (induction posts arbitrary: st)
  case Nil
  then show ?case by simp
next
  case (Cons p posts)
  show ?case
  proof (cases "\<exists>ack. clearChatHistory p = Inr ack")
    case True
    then obtain ack where "clearChatHistory p = Inr ack" ..
    then have "handleClearChat p st = st\<lparr>messages := [], toolLogs := []\<rparr>"
      by (rule handleClearChat_done)
    then show ?thesis by (simp add: fold_clear_keeps_empty)
  next
    case False
    with Cons.prems have "\<exists>q\<in>set posts. \<exists>ack. clearChatHistory q = Inr ack" by auto
    then show ?thesis using Cons.IH by simp
  qed
qed


lemma handleSend_Some_reads_one_answer:
  assumes "chat' ''/chat'' (Some (JObj [(''message'', JStr (trim x))])) =
           chat ''/chat'' (Some (JObj [(''message'', JStr (trim x))]))"
  shows "handleSend chat' now st (Some x) = handleSend chat now st (Some x)"
proof -
  have t: "trimmedMessage st (Some x) = trim x"
    by (simp add: trimmedMessage_def)
  have "chat' ''/chat'' (Some (JObj [(''message'', JStr (trimmedMessage st (Some x)))])) =
        chat ''/chat'' (Some (JObj [(''message'', JStr (trimmedMessage st (Some x)))]))"
    unfolding t by (rule assms)
  then show ?thesis by (rule handleSend_reads_one_answer)
qed

lemma send_after_clear:
  assumes "messages st = []" and "\<not> isLoading st" and "trim x \<noteq> []"
  shows "\<exists>st1. handleSend_begin now st (Some x) = Some (st1, trim x)
               \<and> messages st1 = [userMessage now (trim x)]"
    and "snd (handleSend chat now st (Some x)) = [trim x]"
  using assms by (simp_all add: handleSend_def handleSend_begin_def trimmedMessage_def)

text \<open>
  Whatever the input and the reply, every entry \<^verbatim>\<open>handleSend\<close> leaves in the tool log was
  there before or carries \<open>success = True\<close>.
\<close>

lemma handleSend_logs_only_success:
  "e \<in> set (toolLogs (fst (handleSend post now st messageText))) \<Longrightarrow>
   e \<in> set (toolLogs st) \<or> success e"
  by (auto simp: handleSend_def handleSend_begin_def handleSend_finish_def handleToolLog_def
      handleSend_catch_def Let_def split: if_splits sum.splits)

text \<open>
  What the \<^verbatim>\<open>catch\<close> clause of \<^verbatim>\<open>sendChatMessage\<close> throws, branch by branch.
\<close>

lemma chat_failure_message:
  "response err = None \<Longrightarrow> request err \<Longrightarrow>
     chat_failure err = Error ''Unable to connect to the server. Is the backend running?''"
  "response err = None \<Longrightarrow> \<not> request err \<Longrightarrow>
     chat_failure err = Error ''Failed to send message''"
  "response err = Some data \<Longrightarrow> \<not> nullish data \<Longrightarrow> \<not> truthy (get_prop data ''detail'') \<Longrightarrow>
     chat_failure err = Error ''Server error occurred''"
  "response err = Some data \<Longrightarrow> \<not> nullish data \<Longrightarrow> get_prop data ''detail'' = JStr s \<Longrightarrow>
     s \<noteq> [] \<Longrightarrow> chat_failure err = Error s"
  "response err = Some data \<Longrightarrow> \<not> nullish data \<Longrightarrow> truthy (get_prop data ''detail'') \<Longrightarrow>
     js_to_string (get_prop data ''detail'') = Inr s \<Longrightarrow> chat_failure err = Error s"
  "response err = Some data \<Longrightarrow> nullish data \<Longrightarrow> chat_failure err = cannot_read data ''detail''"
  by (simp_all add: chat_failure_def js_or_def)

subsection \<open>A failed chat request\<close>

text \<open>
  Claim C1, as the code has it.  When the chat request of a non-blank message fails, with no
  other request in flight, \<^verbatim>\<open>handleSend\<close> appends the user's message and after it one
  message of role \<open>Agent\<close> whose content is \<^verbatim>\<open>Sorry, I encountered an error: \<close> followed by
  the error's message; it records no tool log entry, puts the error's message into the
  \<open>error\<close> state, ends loading, and has issued exactly one request.
\<close>

theorem failed_request_appends_apology:
  assumes "trimmedMessage st messageText \<noteq> []" and "\<not> isLoading st"
    and "sendChatMessage post (trimmedMessage st messageText) = Inl err"
  shows "messages (fst (handleSend post now st messageText)) =
           messages st @ [userMessage now (trimmedMessage st messageText), errorMessage now err]
         \<and> role (errorMessage now err) = Agent
         \<and> content (errorMessage now err) =
             JStr (''Sorry, I encountered an error: '' @ message err)
         \<and> toolLogs (fst (handleSend post now st messageText)) = toolLogs st
         \<and> error (fst (handleSend post now st messageText)) = Some (message err)
         \<and> isLoading (fst (handleSend post now st messageText)) = False
         \<and> snd (handleSend post now st messageText) = [trimmedMessage st messageText]"
  by (simp add: handleSend_failed [OF assms] errorMessage_def)

text \<open>
  The theorem at the initial state, with the message \<^verbatim>\<open>hello\<close> and a backend that does not
  answer.
\<close>

theorem failed_request_appends_apology_witness:
  "trimmedMessage initial_state (Some ''hello'') \<noteq> []
   \<and> \<not> isLoading initial_state
   \<and> sendChatMessage backend_down (trimmedMessage initial_state (Some ''hello'')) =
       Inl (Error ''Unable to connect to the server. Is the backend running?'')
   \<and> messages (fst (handleSend backend_down fixed_clock initial_state (Some ''hello''))) =
       [userMessage fixed_clock ''hello'',
        errorMessage fixed_clock
          (Error ''Unable to connect to the server. Is the backend running?'')]
   \<and> error (fst (handleSend backend_down fixed_clock initial_state (Some ''hello''))) =
       Some ''Unable to connect to the server. Is the backend running?''"
proof -
  have h1: "trimmedMessage initial_state (Some ''hello'') \<noteq> []"
    by (simp add: trimmed_hello)
  have h2: "\<not> isLoading initial_state"
    by (simp add: initial_state_def)
  have h3: "sendChatMessage backend_down (trimmedMessage initial_state (Some ''hello'')) =
              Inl (Error ''Unable to connect to the server. Is the backend running?'')"
    by (rule send_backend_down)
  have m: "messages initial_state = []"
    by (simp add: initial_state_def)
  show ?thesis
    using h1 h2 h3 failed_request_appends_apology [OF h1 h2 h3, of fixed_clock]
    by (simp add: trimmed_hello m)
qed

text \<open>
  Claim C1 as stated says that a failed request leaves the history with the user's message
  and no added agent message.  With a backend that does not answer, the history after
  \<^verbatim>\<open>hello\<close> holds two messages, the second of role \<open>Agent\<close>.
\<close>

theorem failed_request_adds_agent_message:
  "map role (messages (fst (handleSend backend_down fixed_clock initial_state (Some ''hello''))))
     = [User, Agent]"
proof -
  have h1: "trimmedMessage initial_state (Some ''hello'') \<noteq> []"
    by (simp add: trimmed_hello)
  have h2: "\<not> isLoading initial_state"
    by (simp add: initial_state_def)
  have m: "messages initial_state = []"
    by (simp add: initial_state_def)
  show ?thesis
    by (simp add: handleSend_failed [OF h1 h2 send_backend_down] m userMessage_def
        errorMessage_def)
qed

subsection \<open>A reply that names a tool\<close>

text \<open>
  Claim C2 says that the trace entry of a turn whose tool invocation failed carries
  \<open>success = False\<close>.  The log panel draws a failure mark for such an entry, but
  \<^verbatim>\<open>handleSend\<close> writes the constant \<^verbatim>\<open>success: true\<close>: for a reply whose tool could not
  convert the currency, the one entry recorded carries \<open>success = True\<close>.
\<close>

theorem failed_tool_logged_as_success:
  "map success (toolLogs (fst (handleSend failed_tool_reply fixed_clock initial_state
                                  (Some ''Convert 100 USD to JPY'')))) = [True]"
proof -
  let ?resp = "JObj [(''response'', JStr ''Sorry, JPY is not a supported currency.''),
               (''tool_used'', JStr ''convert_currency''),
               (''tool_output'', JStr ''Error: unsupported currency JPY''),
               (''thinking'', JStr ''Decided to use convert_currency'')]"
  have h1: "trimmedMessage initial_state (Some ''Convert 100 USD to JPY'') \<noteq> []"
    by (simp add: trimmed_convert)
  have h2: "\<not> isLoading initial_state"
    by (simp add: initial_state_def)
  have h3: "sendChatMessage failed_tool_reply
              (trimmedMessage initial_state (Some ''Convert 100 USD to JPY'')) = Inr ?resp"
    by (simp add: sendChatMessage_def failed_tool_reply_def)
  have h4: "\<not> nullish ?resp"
    by (simp add: nullish_def)
  have l: "toolLogs initial_state = []"
    by (simp add: initial_state_def)
  show ?thesis
    by (simp add: handleSend_replied [OF h1 h2 h3 h4] l get_prop_def)
qed

subsection \<open>The value of a chat request\<close>

text \<open>
  Claim C3, as the code has it.  A successful \<^verbatim>\<open>sendChatMessage\<close> returns the response body
  as the transport delivered it, whatever its shape.  When that body is not \<^verbatim>\<open>null\<close> or
  \<^verbatim>\<open>undefined\<close>, \<^verbatim>\<open>handleSend\<close> copies its \<^verbatim>\<open>response\<close>, \<^verbatim>\<open>tool_used\<close>, \<^verbatim>\<open>tool_output\<close> and
  \<^verbatim>\<open>thinking\<close> into the agent's message, records one tool log entry with the tool's name,
  rationale and output when \<^verbatim>\<open>tool_used\<close> is truthy and none otherwise, and surfaces no
  error.  A property that an object lacks reads as \<^verbatim>\<open>undefined\<close>.  A rejected request
  returns no value: \<^verbatim>\<open>sendChatMessage\<close> throws, and what it throws is named neither
  \<^verbatim>\<open>EmptyMessageError\<close> nor \<^verbatim>\<open>ServiceUnavailableError\<close> nor \<^verbatim>\<open>TimeoutError\<close>.
\<close>

theorem reply_passed_through:
  "(\<forall>data. post ''/chat'' (Some (JObj [(''message'', JStr msg)])) = Resolved data \<longrightarrow>
       sendChatMessage post msg = Inr data)
   \<and> (trimmedMessage st messageText \<noteq> [] \<and> \<not> isLoading st
       \<and> sendChatMessage post (trimmedMessage st messageText) = Inr resp \<and> \<not> nullish resp \<longrightarrow>
       messages (fst (handleSend post now st messageText)) =
         messages st @
           [userMessage now (trimmedMessage st messageText),
            \<lparr>msg_id = now 2 + 1, role = Agent, content = get_prop resp ''response'',
             toolUsed = get_prop resp ''tool_used'', toolOutput = get_prop resp ''tool_output'',
             thinking = get_prop resp ''thinking'', timestamp = now 3\<rparr>]
       \<and> (truthy (get_prop resp ''tool_used'') \<longrightarrow>
            (\<exists>e. toolLogs (fst (handleSend post now st messageText)) = toolLogs st @ [e]
                 \<and> tool e = get_prop resp ''tool_used''
                 \<and> log_input e = get_prop resp ''thinking''
                 \<and> log_output e = get_prop resp ''tool_output''))
       \<and> (\<not> truthy (get_prop resp ''tool_used'') \<longrightarrow>
            toolLogs (fst (handleSend post now st messageText)) = toolLogs st)
       \<and> error (fst (handleSend post now st messageText)) = None)
   \<and> (\<forall>kvs key. key \<notin> set (map fst kvs) \<longrightarrow> get_prop (JObj kvs) key = JUndefined)
   \<and> (\<forall>err. post ''/chat'' (Some (JObj [(''message'', JStr msg)])) = Rejected err \<longrightarrow>
        (\<exists>e. sendChatMessage post msg = Inl e
             \<and> error_name e \<notin> {''EmptyMessageError'', ''ServiceUnavailableError'',
                                ''TimeoutError''}))"
proof -
  have a: "\<forall>data. post ''/chat'' (Some (JObj [(''message'', JStr msg)])) = Resolved data \<longrightarrow>
             sendChatMessage post msg = Inr data"
    by (simp add: sendChatMessage_resolved)
  have b: "trimmedMessage st messageText \<noteq> [] \<and> \<not> isLoading st
       \<and> sendChatMessage post (trimmedMessage st messageText) = Inr resp \<and> \<not> nullish resp \<longrightarrow>
       messages (fst (handleSend post now st messageText)) =
         messages st @
           [userMessage now (trimmedMessage st messageText),
            \<lparr>msg_id = now 2 + 1, role = Agent, content = get_prop resp ''response'',
             toolUsed = get_prop resp ''tool_used'', toolOutput = get_prop resp ''tool_output'',
             thinking = get_prop resp ''thinking'', timestamp = now 3\<rparr>]
       \<and> (truthy (get_prop resp ''tool_used'') \<longrightarrow>
            (\<exists>e. toolLogs (fst (handleSend post now st messageText)) = toolLogs st @ [e]
                 \<and> tool e = get_prop resp ''tool_used''
                 \<and> log_input e = get_prop resp ''thinking''
                 \<and> log_output e = get_prop resp ''tool_output''))
       \<and> (\<not> truthy (get_prop resp ''tool_used'') \<longrightarrow>
            toolLogs (fst (handleSend post now st messageText)) = toolLogs st)
       \<and> error (fst (handleSend post now st messageText)) = None"
    by (simp add: handleSend_replied agentMessage_def)
  have c: "\<forall>kvs key. key \<notin> set (map fst kvs) \<longrightarrow> get_prop (JObj kvs) key = JUndefined"
  proof (intro allI impI)
    fix kvs :: "(string \<times> jsval) list" and key
    assume "key \<notin> set (map fst kvs)"
    then have "map_of (rev kvs) key = None" by (simp add: map_of_eq_None_iff)
    then show "get_prop (JObj kvs) key = JUndefined" by (simp add: get_prop_def)
  qed
  have d: "\<forall>err. post ''/chat'' (Some (JObj [(''message'', JStr msg)])) = Rejected err \<longrightarrow>
        (\<exists>e. sendChatMessage post msg = Inl e
             \<and> error_name e \<notin> {''EmptyMessageError'', ''ServiceUnavailableError'',
                                ''TimeoutError''})"
  proof (intro allI impI)
    fix err
    assume "post ''/chat'' (Some (JObj [(''message'', JStr msg)])) = Rejected err"
    then have "sendChatMessage post msg = Inl (chat_failure err)"
      by (rule sendChatMessage_rejected)
    moreover have "error_name (chat_failure err) \<notin>
        {''EmptyMessageError'', ''ServiceUnavailableError'', ''TimeoutError''}"
      using chat_failure_name [of err] by auto
    ultimately show "\<exists>e. sendChatMessage post msg = Inl e
             \<and> error_name e \<notin> {''EmptyMessageError'', ''ServiceUnavailableError'',
                                ''TimeoutError''}"
      by blast
  qed
  from a b c d show ?thesis by (intro conjI)
qed

text \<open>
  The theorem at the initial state, for a direct answer to \<^verbatim>\<open>hello\<close>, and for a backend that
  does not answer.
\<close>

theorem reply_passed_through_witness:
  "sendChatMessage direct_reply ''hello'' =
     Inr (JObj [(''response'', JStr ''Hello!''), (''tool_used'', JNull),
                (''tool_output'', JNull), (''thinking'', JNull)])
   \<and> messages (fst (handleSend direct_reply fixed_clock initial_state (Some ''hello''))) =
       [userMessage fixed_clock ''hello'',
        \<lparr>msg_id = 1003, role = Agent, content = JStr ''Hello!'', toolUsed = JNull,
         toolOutput = JNull, thinking = JNull, timestamp = 1003\<rparr>]
   \<and> toolLogs (fst (handleSend direct_reply fixed_clock initial_state (Some ''hello''))) = []
   \<and> (\<exists>e. sendChatMessage backend_down ''hello'' = Inl e \<and> error_name e = ''Error'')"
proof -
  let ?resp = "JObj [(''response'', JStr ''Hello!''), (''tool_used'', JNull),
                (''tool_output'', JNull), (''thinking'', JNull)]"
  have r: "direct_reply ''/chat'' (Some (JObj [(''message'', JStr ''hello'')])) = Resolved ?resp"
    by (simp add: direct_reply_def)
  have s: "sendChatMessage direct_reply ''hello'' = Inr ?resp"
    by (simp add: sendChatMessage_def direct_reply_def)
  have n: "\<not> nullish ?resp"
    by (simp add: nullish_def)
  have h2: "\<not> isLoading initial_state"
    by (simp add: initial_state_def)
  have m: "messages initial_state = []" "toolLogs initial_state = []"
    by (simp_all add: initial_state_def)
  show ?thesis
    using r s n h2
      reply_passed_through [of direct_reply "''hello''" initial_state "Some ''hello''" ?resp
        fixed_clock]
    by (simp add: trimmed_hello m get_prop_def fixed_clock_def send_backend_down)
qed

text \<open>
  Claim C3 as stated says that a successful call returns a value of exactly the shape
  \<^verbatim>\<open>{response, tool_used, tool_output, thinking}\<close> and that a failure is one of three named
  errors.  For a server that answers with a string, the call succeeds and returns that
  string; for a backend that does not answer, what is thrown is a plain \<^verbatim>\<open>Error\<close>.
\<close>

theorem reply_shape_unchecked:
  "sendChatMessage text_reply ''hello'' = Inr (JStr ''OK'')
   \<and> \<not> claimed_reply_shape (JStr ''OK'')
   \<and> sendChatMessage backend_down ''hello'' =
       Inl (Error ''Unable to connect to the server. Is the backend running?'')
   \<and> error_name (Error ''Unable to connect to the server. Is the backend running?'') = ''Error''"
proof -
  have "sendChatMessage text_reply ''hello'' = Inr (JStr ''OK'')"
    by (simp add: sendChatMessage_def text_reply_def)
  moreover have "\<not> claimed_reply_shape (JStr ''OK'')"
    by (simp add: claimed_reply_shape_def)
  ultimately show ?thesis
    by (simp add: send_backend_down)
qed

subsection \<open>Blank input\<close>

text \<open>
  Claim C4, as the code has it.  For every empty or whitespace-only input (the argument, or
  the input field when there is none), \<^verbatim>\<open>handleSend\<close> returns at its guard: it issues no
  request and leaves the whole state as it was, so no message of any role is appended and
  no error is raised or shown.
\<close>

theorem blank_input_ignored:
  assumes "\<forall>c\<in>set (case messageText of None \<Rightarrow> inputValue st | Some t \<Rightarrow> t). is_whitespace c"
  shows "handleSend post now st messageText = (st, [])"
proof -
  have "trimmedMessage st messageText = []"
    using assms by (simp add: trimmedMessage_def trim_Nil_iff)
  then show ?thesis by (simp add: handleSend_guard)
qed

text \<open>
  The theorem at the initial state, for an input of three spaces.
\<close>

theorem blank_input_ignored_witness:
  "list_all is_whitespace ''   ''
   \<and> handleSend direct_reply fixed_clock initial_state (Some ''   '') = (initial_state, [])"
proof -
  have h: "\<forall>c\<in>set (case Some ''   '' of None \<Rightarrow> inputValue initial_state | Some t \<Rightarrow> t).
             is_whitespace c"
    by (simp add: is_whitespace_def)
  show ?thesis
    using blank_input_ignored [OF h, of direct_reply fixed_clock]
    by (simp add: is_whitespace_def)
qed

text \<open>
  Claim C4 as stated says that blank input is rejected with an \<^verbatim>\<open>EmptyMessageError\<close>.  The
  handler never throws, and after an input of three spaces the \<open>error\<close> state, the only
  error it surfaces, is still empty.
\<close>

theorem blank_input_raises_no_error:
  "error (fst (handleSend direct_reply fixed_clock initial_state (Some ''   ''))) = None"
proof -
  have "trimmedMessage initial_state (Some ''   '') = []"
    by (simp add: trimmedMessage_def trim_def is_whitespace_def)
  then have "handleSend direct_reply fixed_clock initial_state (Some ''   '') = (initial_state, [])"
    by (simp add: handleSend_guard)
  then show ?thesis by (simp add: initial_state_def)
qed


subsection \<open>Clearing the chat\<close>

text \<open>
  Claim C9.  \<^verbatim>\<open>handleClearChat\<close> is atomic with respect to the server call: if
  \<^verbatim>\<open>clearChatHistory\<close> throws, the state, and so both lists, is unchanged; if it returns,
  the message list and the tool log list are both reset to empty and nothing else changes;
  the state changes only if the server's clear-history request resolved; and
  \<^verbatim>\<open>clearChatHistory\<close> throws exactly when that request is rejected.
\<close>

theorem handleClearChat_resets_only_on_success:
  "(\<forall>err. clearChatHistory post = Inl err \<longrightarrow> handleClearChat post st = st)
   \<and> (\<forall>ack. clearChatHistory post = Inr ack \<longrightarrow>
          handleClearChat post st = st\<lparr>messages := [], toolLogs := []\<rparr>)
   \<and> (handleClearChat post st \<noteq> st \<longrightarrow> (\<exists>ack. post ''/clear-history'' None = Resolved ack))
   \<and> ((\<exists>err. clearChatHistory post = Inl err) \<longleftrightarrow>
        (\<exists>e. post ''/clear-history'' None = Rejected e))"
  by (auto simp: handleClearChat_def clearChatHistory_def split: axios_result.splits)

text \<open>
  The theorem on a history of two messages, once with a backend that does not answer and
  once with one that does.
\<close>

theorem handleClearChat_resets_only_on_success_witness:
  "clearChatHistory backend_down = Inl (Error ''Failed to clear chat history'')
   \<and> handleClearChat backend_down
         (fst (handleSend backend_down fixed_clock initial_state (Some ''hello''))) =
       fst (handleSend backend_down fixed_clock initial_state (Some ''hello''))
   \<and> clearChatHistory direct_reply \<noteq> Inl (Error ''Failed to clear chat history'')
   \<and> messages (handleClearChat direct_reply
         (fst (handleSend backend_down fixed_clock initial_state (Some ''hello'')))) = []
   \<and> toolLogs (handleClearChat direct_reply
         (fst (handleSend backend_down fixed_clock initial_state (Some ''hello'')))) = []"
proof -
  let ?st = "fst (handleSend backend_down fixed_clock initial_state (Some ''hello''))"
  obtain ack where ok: "clearChatHistory direct_reply = Inr ack"
    using clear_direct_reply ..
  show ?thesis
    using clear_backend_down ok
      handleClearChat_resets_only_on_success [of backend_down ?st]
      handleClearChat_resets_only_on_success [of direct_reply ?st]
    by simp
qed

text \<open>
  Claim C5, as the code has it.  When the server's clear-history request is rejected,
  \<^verbatim>\<open>clearChatHistory\<close> throws \<^verbatim>\<open>Error('Failed to clear chat history')\<close> and \<^verbatim>\<open>handleClearChat\<close>
  leaves the state as it was.  When it resolves, \<^verbatim>\<open>clearChatHistory\<close> returns the
  acknowledgement and \<^verbatim>\<open>handleClearChat\<close> empties the message list and the tool log list.
  \<^verbatim>\<open>handleClearChat\<close> is idempotent.  After any state, consecutive clears of which at least
  one request resolved leave both lists empty; with no request in flight, a following send
  of a non-blank \<open>x\<close> then puts the user's message \<open>x\<close> alone into the message list and issues
  exactly one request, whose outcome depends on the transport only through the answer to
  \<^verbatim>\<open>POST /chat\<close> with the body \<^verbatim>\<open>{message: trim(x)}\<close>: no history is sent.
\<close>

theorem successful_clear_then_send:
  "(\<forall>e. post ''/clear-history'' None = Rejected e \<longrightarrow>
       clearChatHistory post = Inl (Error ''Failed to clear chat history'')
       \<and> handleClearChat post st = st)
   \<and> (\<forall>ack. post ''/clear-history'' None = Resolved ack \<longrightarrow>
       clearChatHistory post = Inr ack
       \<and> messages (handleClearChat post st) = [] \<and> toolLogs (handleClearChat post st) = [])
   \<and> handleClearChat post (handleClearChat post st) = handleClearChat post st
   \<and> ((\<exists>p\<in>set posts. \<exists>ack. p ''/clear-history'' None = Resolved ack) \<longrightarrow>
       messages (fold handleClearChat posts st) = []
       \<and> toolLogs (fold handleClearChat posts st) = []
       \<and> (\<not> isLoading st \<and> trim x \<noteq> [] \<longrightarrow>
            (\<exists>st1. handleSend_begin now (fold handleClearChat posts st) (Some x) =
                      Some (st1, trim x)
                  \<and> messages st1 = [userMessage now (trim x)])
            \<and> snd (handleSend chat now (fold handleClearChat posts st) (Some x)) = [trim x]
            \<and> (\<forall>chat'. chat' ''/chat'' (Some (JObj [(''message'', JStr (trim x))])) =
                        chat ''/chat'' (Some (JObj [(''message'', JStr (trim x))])) \<longrightarrow>
                  handleSend chat' now (fold handleClearChat posts st) (Some x) =
                  handleSend chat now (fold handleClearChat posts st) (Some x))))"
proof -
  let ?S = "fold handleClearChat posts st"
  have a: "\<forall>e. post ''/clear-history'' None = Rejected e \<longrightarrow>
       clearChatHistory post = Inl (Error ''Failed to clear chat history'')
       \<and> handleClearChat post st = st"
    by (simp add: clearChatHistory_rejected handleClearChat_failed)
  have b: "\<forall>ack. post ''/clear-history'' None = Resolved ack \<longrightarrow>
       clearChatHistory post = Inr ack
       \<and> messages (handleClearChat post st) = [] \<and> toolLogs (handleClearChat post st) = []"
    by (simp add: clearChatHistory_resolved handleClearChat_done)
  have c: "handleClearChat post (handleClearChat post st) = handleClearChat post st"
    by (rule handleClearChat_idem)
  have d: "(\<exists>p\<in>set posts. \<exists>ack. p ''/clear-history'' None = Resolved ack) \<longrightarrow>
       messages ?S = [] \<and> toolLogs ?S = []
       \<and> (\<not> isLoading st \<and> trim x \<noteq> [] \<longrightarrow>
            (\<exists>st1. handleSend_begin now ?S (Some x) = Some (st1, trim x)
                  \<and> messages st1 = [userMessage now (trim x)])
            \<and> snd (handleSend chat now ?S (Some x)) = [trim x]
            \<and> (\<forall>chat'. chat' ''/chat'' (Some (JObj [(''message'', JStr (trim x))])) =
                        chat ''/chat'' (Some (JObj [(''message'', JStr (trim x))])) \<longrightarrow>
                  handleSend chat' now ?S (Some x) = handleSend chat now ?S (Some x)))"
  proof (intro impI)
    assume "\<exists>p\<in>set posts. \<exists>ack. p ''/clear-history'' None = Resolved ack"
    then have "\<exists>p\<in>set posts. \<exists>ack. clearChatHistory p = Inr ack"
      by (auto dest: clearChatHistory_resolved)
    then have e: "messages ?S = [] \<and> toolLogs ?S = []"
      by (rule fold_clear_empties)
    then have m: "messages ?S = []" and l: "toolLogs ?S = []"
      by simp_all
    have s: "\<not> isLoading st \<and> trim x \<noteq> [] \<longrightarrow>
            (\<exists>st1. handleSend_begin now ?S (Some x) = Some (st1, trim x)
                  \<and> messages st1 = [userMessage now (trim x)])
            \<and> snd (handleSend chat now ?S (Some x)) = [trim x]
            \<and> (\<forall>chat'. chat' ''/chat'' (Some (JObj [(''message'', JStr (trim x))])) =
                        chat ''/chat'' (Some (JObj [(''message'', JStr (trim x))])) \<longrightarrow>
                  handleSend chat' now ?S (Some x) = handleSend chat now ?S (Some x))"
    proof (intro impI)
      assume h: "\<not> isLoading st \<and> trim x \<noteq> []"
      then have i: "\<not> isLoading ?S" and t: "trim x \<noteq> []"
        by (simp_all add: fold_clear_isLoading)
      have s1: "\<exists>st1. handleSend_begin now ?S (Some x) = Some (st1, trim x)
                  \<and> messages st1 = [userMessage now (trim x)]"
        by (rule send_after_clear(1) [OF m i t])
      have s2: "snd (handleSend chat now ?S (Some x)) = [trim x]"
        by (rule send_after_clear(2) [OF m i t])
      have s3: "\<forall>chat'. chat' ''/chat'' (Some (JObj [(''message'', JStr (trim x))])) =
                        chat ''/chat'' (Some (JObj [(''message'', JStr (trim x))])) \<longrightarrow>
                  handleSend chat' now ?S (Some x) = handleSend chat now ?S (Some x)"
        by (intro allI impI) (rule handleSend_Some_reads_one_answer)
      from s1 s2 s3 show "(\<exists>st1. handleSend_begin now ?S (Some x) = Some (st1, trim x)
                  \<and> messages st1 = [userMessage now (trim x)])
            \<and> snd (handleSend chat now ?S (Some x)) = [trim x]
            \<and> (\<forall>chat'. chat' ''/chat'' (Some (JObj [(''message'', JStr (trim x))])) =
                        chat ''/chat'' (Some (JObj [(''message'', JStr (trim x))])) \<longrightarrow>
                  handleSend chat' now ?S (Some x) = handleSend chat now ?S (Some x))"
        by (intro conjI)
    qed
    from m l s show "messages ?S = [] \<and> toolLogs ?S = []
       \<and> (\<not> isLoading st \<and> trim x \<noteq> [] \<longrightarrow>
            (\<exists>st1. handleSend_begin now ?S (Some x) = Some (st1, trim x)
                  \<and> messages st1 = [userMessage now (trim x)])
            \<and> snd (handleSend chat now ?S (Some x)) = [trim x]
            \<and> (\<forall>chat'. chat' ''/chat'' (Some (JObj [(''message'', JStr (trim x))])) =
                        chat ''/chat'' (Some (JObj [(''message'', JStr (trim x))])) \<longrightarrow>
                  handleSend chat' now ?S (Some x) = handleSend chat now ?S (Some x)))"
      by (intro conjI)
  qed
  from a b c d show ?thesis by (intro conjI)
qed

text \<open>
  The theorem on a history of two messages, cleared by a request that fails and one that
  succeeds, then sending \<^verbatim>\<open>hi\<close>.
\<close>

theorem successful_clear_then_send_witness:
  "clearChatHistory backend_down = Inl (Error ''Failed to clear chat history'')
   \<and> handleClearChat backend_down
        (fst (handleSend backend_down fixed_clock initial_state (Some ''hello''))) =
       fst (handleSend backend_down fixed_clock initial_state (Some ''hello''))
   \<and> (\<exists>p\<in>set [backend_down, direct_reply]. \<exists>ack. p ''/clear-history'' None = Resolved ack)
   \<and> \<not> isLoading (fst (handleSend backend_down fixed_clock initial_state (Some ''hello'')))
   \<and> trim ''hi'' \<noteq> []
   \<and> messages (fold handleClearChat [backend_down, direct_reply]
        (fst (handleSend backend_down fixed_clock initial_state (Some ''hello'')))) = []
   \<and> (\<exists>st1. handleSend_begin fixed_clock
          (fold handleClearChat [backend_down, direct_reply]
             (fst (handleSend backend_down fixed_clock initial_state (Some ''hello''))))
          (Some ''hi'') = Some (st1, ''hi'')
        \<and> messages st1 = [userMessage fixed_clock ''hi''])
   \<and> snd (handleSend direct_reply fixed_clock
          (fold handleClearChat [backend_down, direct_reply]
             (fst (handleSend backend_down fixed_clock initial_state (Some ''hello''))))
          (Some ''hi'')) = [''hi'']"
proof -
  let ?st = "fst (handleSend backend_down fixed_clock initial_state (Some ''hello''))"
  let ?ps = "[backend_down, direct_reply]"
  have r: "backend_down ''/clear-history'' None = Rejected \<lparr>response = None, request = True\<rparr>"
    by (simp add: backend_down_def)
  have h1: "\<exists>p\<in>set ?ps. \<exists>ack. p ''/clear-history'' None = Resolved ack"
    by (simp add: direct_reply_def)
  have g1: "trimmedMessage initial_state (Some ''hello'') \<noteq> []"
    by (simp add: trimmed_hello)
  have g2: "\<not> isLoading initial_state"
    by (simp add: initial_state_def)
  have h2: "\<not> isLoading ?st"
    by (simp add: handleSend_failed [OF g1 g2 send_backend_down])
  have t: "trim ''hi'' = ''hi''"
    by (simp add: trim_def is_whitespace_def)
  have h3: "trim ''hi'' \<noteq> []"
    by (simp add: t)
  note T = successful_clear_then_send [of backend_down ?st ?ps "''hi''" fixed_clock direct_reply]
  from T r have c1: "clearChatHistory backend_down = Inl (Error ''Failed to clear chat history'')
      \<and> handleClearChat backend_down ?st = ?st"
    by blast
  from T h1 h2 h3 have c2: "messages (fold handleClearChat ?ps ?st) = []
      \<and> (\<exists>st1. handleSend_begin fixed_clock (fold handleClearChat ?ps ?st) (Some ''hi'') =
                  Some (st1, trim ''hi'')
                \<and> messages st1 = [userMessage fixed_clock (trim ''hi'')])
      \<and> snd (handleSend direct_reply fixed_clock (fold handleClearChat ?ps ?st) (Some ''hi'')) =
          [trim ''hi'']"
    by blast
  from c1 c2 [unfolded t] h1 h2 h3 show ?thesis
    by blast
qed

text \<open>
  Claim C5 as stated says that clearing always succeeds and leaves the history empty.  With a
  backend that does not answer, \<^verbatim>\<open>clearChatHistory\<close> throws, and the history of two messages
  is still there after \<^verbatim>\<open>handleClearChat\<close>.
\<close>

theorem failed_clear_keeps_history:
  "clearChatHistory backend_down = Inl (Error ''Failed to clear chat history'')
   \<and> map role (messages (handleClearChat backend_down
        (fst (handleSend backend_down fixed_clock initial_state (Some ''hello'')))))
       = [User, Agent]"
proof -
  have h1: "trimmedMessage initial_state (Some ''hello'') \<noteq> []"
    by (simp add: trimmed_hello)
  have h2: "\<not> isLoading initial_state"
    by (simp add: initial_state_def)
  have m: "messages initial_state = []"
    by (simp add: initial_state_def)
  show ?thesis
    by (simp add: clear_backend_down handleClearChat_failed [OF clear_backend_down]
        handleSend_failed [OF h1 h2 send_backend_down] m userMessage_def errorMessage_def)
qed

subsection \<open>The errors of a chat request\<close>

text \<open>
  Claim C10 says that when the server responded with an error, \<^verbatim>\<open>sendChatMessage\<close> throws an
  \<^verbatim>\<open>Error\<close> whose message is the server's \<^verbatim>\<open>detail\<close> or \<^verbatim>\<open>Server error occurred\<close>.  The code
  has that fall-back for a missing detail, but reads the detail of the body without looking
  at the body: for an error response whose body is \<^verbatim>\<open>null\<close> it throws the engine's
  \<^verbatim>\<open>TypeError\<close>, with the engine's message.
\<close>

theorem null_error_body_throws_type_error:
  "sendChatMessage server_error_null ''hello'' =
     Inl (TypeError (''Cannot read properties of null (reading '' @ [CHR 0x27] @ ''detail''
                     @ [CHR 0x27] @ '')''))"
  by (simp add: sendChatMessage_def server_error_null_def chat_failure_def nullish_def
      cannot_read_def)

section \<open>Properties of the tools as specified\<close>

lemma foldl_add_sum_list: "foldl (+) a numbers = a + sum_list numbers" for a :: rat
  by (induction numbers arbitrary: a) (simp_all add: add.assoc)

text \<open>
  Claim C6.  For every list of numbers \<^verbatim>\<open>calculate_sum\<close> returns their arithmetic sum; in
  particular \<^verbatim>\<open>calculate_sum([10,20,35])\<close> is 65, and \<^verbatim>\<open>calculate_sum([])\<close> returns 0 and does
  not fail.
\<close>

theorem calculate_sum_is_sum:
  "calculate_sum numbers = Inr (sum_list numbers)
   \<and> calculate_sum [10, 20, 35] = Inr 65
   \<and> calculate_sum [] = Inr 0"
  by (simp add: calculate_sum_def foldl_add_sum_list)

text \<open>
  Claim C7.  \<^verbatim>\<open>convert_currency(amount, from, to)\<close> returns the product of the amount with the
  rate of the table when both currencies are among USD, EUR and INR, and fails with
  \<^verbatim>\<open>ToolExecutionError(UnsupportedCurrency)\<close> when either is not; in particular 100 USD to
  INR is the product with the table's rate, and 100 USD to JPY fails.
\<close>

theorem convert_currency_supported:
  "(from_currency \<in> {''USD'', ''EUR'', ''INR''} \<and> to_currency \<in> {''USD'', ''EUR'', ''INR''} \<longrightarrow>
      convert_currency rate amount from_currency to_currency =
        Inr (amount * rate from_currency to_currency))
   \<and> (from_currency \<notin> {''USD'', ''EUR'', ''INR''} \<or> to_currency \<notin> {''USD'', ''EUR'', ''INR''} \<longrightarrow>
      convert_currency rate amount from_currency to_currency =
        Inl (ToolExecutionError UnsupportedCurrency))
   \<and> convert_currency rate 100 ''USD'' ''INR'' = Inr (100 * rate ''USD'' ''INR'')
   \<and> convert_currency rate 100 ''USD'' ''JPY'' = Inl (ToolExecutionError UnsupportedCurrency)"
  by (simp add: convert_currency_def supported_currencies_def)

text \<open>
  The theorem on a sample rate table.
\<close>

theorem convert_currency_supported_witness:
  "''USD'' \<in> {''USD'', ''EUR'', ''INR''} \<and> ''INR'' \<in> {''USD'', ''EUR'', ''INR''}
   \<and> convert_currency sample_rate 100 ''USD'' ''INR'' = Inr 8300
   \<and> ''JPY'' \<notin> {''USD'', ''EUR'', ''INR''}
   \<and> convert_currency sample_rate 100 ''USD'' ''JPY'' = Inl (ToolExecutionError UnsupportedCurrency)"
  using convert_currency_supported [of "''USD''" "''INR''" sample_rate 100]
    convert_currency_supported [of "''USD''" "''JPY''" sample_rate 100]
  by (simp add: sample_rate_def)

text \<open>
  Claim C8.  \<^verbatim>\<open>get_weather(city)\<close> returns the fixture's reading exactly when the city is in
  the fixture set, and fails with \<^verbatim>\<open>ToolExecutionError(CityNotFound)\<close> for every city
  outside it; in particular for a fixture set that holds Bangalore and not Atlantis,
  \<^verbatim>\<open>get_weather("Bangalore")\<close> returns the reading and \<^verbatim>\<open>get_weather("Atlantis")\<close> fails.
\<close>

theorem get_weather_fixture:
  "(get_weather fixture city = Inr reading \<longleftrightarrow> map_of fixture city = Some reading)
   \<and> ((\<exists>r. get_weather fixture city = Inr r) \<longleftrightarrow> city \<in> fst ` set fixture)
   \<and> (get_weather fixture city = Inl (ToolExecutionError CityNotFound) \<longleftrightarrow>
        city \<notin> fst ` set fixture)
   \<and> (map_of fixture ''Bangalore'' = Some reading \<longrightarrow>
        get_weather fixture ''Bangalore'' = Inr reading)
   \<and> (''Atlantis'' \<notin> fst ` set fixture \<longrightarrow>
        get_weather fixture ''Atlantis'' = Inl (ToolExecutionError CityNotFound))"
proof -
  have n: "map_of fixture c = None \<longleftrightarrow> c \<notin> fst ` set fixture" for c
    by (rule map_of_eq_None_iff)
  have a: "get_weather fixture c = Inr r \<longleftrightarrow> map_of fixture c = Some r" for c r
    by (simp add: get_weather_def split: option.splits)
  have b: "get_weather fixture c = Inl (ToolExecutionError CityNotFound) \<longleftrightarrow>
           c \<notin> fst ` set fixture" for c
    using n [of c] by (cases "map_of fixture c") (simp_all add: get_weather_def)
  have c: "(\<exists>r. get_weather fixture c = Inr r) \<longleftrightarrow> c \<in> fst ` set fixture" for c
    using n [of c] by (cases "map_of fixture c") (simp_all add: a)
  show ?thesis
    using a b c by blast
qed

text \<open>
  The theorem on a sample fixture set.
\<close>

theorem get_weather_fixture_witness:
  "map_of sample_fixture ''Bangalore'' = Some (28, ''Sunny'')
   \<and> get_weather sample_fixture ''Bangalore'' = Inr (28, ''Sunny'')
   \<and> ''Atlantis'' \<notin> fst ` set sample_fixture
   \<and> get_weather sample_fixture ''Atlantis'' = Inl (ToolExecutionError CityNotFound)"
proof -
  have h1: "map_of sample_fixture ''Bangalore'' = Some (28, ''Sunny'')"
    by (simp add: sample_fixture_def)
  have h2: "''Atlantis'' \<notin> fst ` set sample_fixture"
    by (simp add: sample_fixture_def)
  show ?thesis
    using h1 h2 get_weather_fixture [of sample_fixture "''Bangalore''" "(28, ''Sunny'')"]
      get_weather_fixture [of sample_fixture "''Atlantis''" "(28, ''Sunny'')"]
    by simp
qed

end
